theory Spec2Isabelle
  imports Main
begin

section \<open>JavaScript values used by the middleware\<close>

text \<open>
  An optional property of an options object (\<^verbatim>\<open>algorithms?: Algorithm[]\<close>) has three
  states at run time: the object has no such own property, the object has the property and
  its value is \<^verbatim>\<open>undefined\<close>, or the object has the property with a value. Object spread
  (\<^verbatim>\<open>{ ...a, ...b }\<close>) copies every own property of \<^verbatim>\<open>b\<close>, also one holding
  \<^verbatim>\<open>undefined\<close>, so the first two states are kept apart.
\<close>

datatype 'a property = Missing | Undefined | Given 'a

text \<open>Reading \<^verbatim>\<open>obj.f\<close>: \<open>None\<close> stands for \<^verbatim>\<open>undefined\<close>.\<close>

fun readProp :: "'a property \<Rightarrow> 'a option" where
  "readProp Missing = None"
| "readProp Undefined = None"
| "readProp (Given v) = Some v"

text \<open>One property of \<^verbatim>\<open>{ ...a, ...b }\<close>: the later operand wins where it has the property.\<close>

fun spreadProp :: "'a property \<Rightarrow> 'a property \<Rightarrow> 'a property" where
  "spreadProp a Missing = a"
| "spreadProp a Undefined = Undefined"
| "spreadProp a (Given v) = Given v"

text \<open>\<^verbatim>\<open>s.startsWith(p)\<close> and \<^verbatim>\<open>s.substring(n)\<close>.\<close>

definition startsWith :: "string \<Rightarrow> string \<Rightarrow> bool" where
  "startsWith s p = (take (length p) s = p)"

definition substring :: "string \<Rightarrow> nat \<Rightarrow> string" where
  "substring s n = drop n s"

text \<open>
  \<^verbatim>\<open>s.replace(pat, rep)\<close> with a string pattern: the first occurrence of \<open>pat\<close>, wherever
  it is, is replaced; a string without the pattern is returned as it is.
\<close>

fun replace :: "string \<Rightarrow> string \<Rightarrow> string \<Rightarrow> string" where
  "replace [] pat rep = (if pat = [] then rep else [])"
| "replace (c # cs) pat rep =
     (if startsWith (c # cs) pat then rep @ drop (length pat) (c # cs)
      else c # replace cs pat rep)"

text \<open>\<^verbatim>\<open>s.split(sep)\<close> for a separator of one character; the result is never empty.\<close>

fun split :: "string \<Rightarrow> char \<Rightarrow> string list" where
  "split [] sep = [[]]"
| "split (c # cs) sep =
     (if c = sep then [] # split cs sep
      else (case split cs sep of [] \<Rightarrow> [[c]] | w # ws \<Rightarrow> (c # w) # ws))"

text \<open>\<^verbatim>\<open>xs[i]\<close> on an array: \<^verbatim>\<open>undefined\<close> out of range.\<close>

fun index :: "'a list \<Rightarrow> nat \<Rightarrow> 'a option" where
  "index [] i = None"
| "index (x # xs) 0 = Some x"
| "index (x # xs) (Suc i) = index xs i"

section \<open>Data model\<close>

type_synonym Algorithm = string

type_synonym JwtPayload = "string \<rightharpoonup> string"

text \<open>\<^verbatim>\<open>interface Message\<close> of the first file (\<open>success\<close>, \<open>error\<close>) and of the second.\<close>

record Message_p000 =
  success :: "string property"
  error :: "string property"

record Message_p001 =
  successMessage :: "string property"
  errorMessage :: "string property"

record 'm JwtMiddlewareOptions =
  message :: "'m property"
  expiresIn :: "string property"
  algorithms :: "Algorithm list property"

text \<open>
  The request: the \<^verbatim>\<open>authorization\<close> entry of its headers and the \<^verbatim>\<open>user\<close> slot.
\<close>

record Request =
  authorization :: "string option"
  user :: "JwtPayload option"

text \<open>The options objects handed to the library's \<^verbatim>\<open>verify\<close> and \<^verbatim>\<open>sign\<close>.\<close>

datatype VerifyOptions = VerifyOptions (verify_algorithms: "Algorithm list option")

datatype SignOptions =
  SignOptions (sign_expiresIn: "string option") (sign_algorithm: "Algorithm option")

text \<open>The body \<^verbatim>\<open>{ message: m }\<close> of a response.\<close>

datatype ResBody = ResBody (body_message: "string option")

text \<open>
  What a handler does to its surroundings, in order: \<^verbatim>\<open>res.status(n)\<close>,
  \<^verbatim>\<open>res.json(body)\<close>, \<^verbatim>\<open>res.send(body)\<close>, and the call of \<^verbatim>\<open>next\<close>, recorded with
  the request as it is at that moment and with the arguments passed; \<open>Throw\<close> is an
  exception that leaves the handler (reading a property of \<^verbatim>\<open>undefined\<close>).
\<close>

datatype 'e Effect =
  Status nat
| Json ResBody
| Send ResBody
| Next Request "'e list"
| Throw

text \<open>What \<^verbatim>\<open>generateToken\<close> can throw.\<close>

datatype 'x GenError = TypeError | SignError 'x

section \<open>First file\<close>

definition DEFAULT_OPTIONS :: "Message_p000 JwtMiddlewareOptions" where
  "DEFAULT_OPTIONS =
     \<lparr> message = Given \<lparr> success = Given ''Token is valid'', error = Given ''Invalid token'' \<rparr>,
       expiresIn = Given ''1h'',
       algorithms = Given [''HS256''] \<rparr>"

text \<open>\<^verbatim>\<open>{ ...a, ...b }\<close> on options objects, property by property.\<close>

definition spreadOptions ::
  "'m JwtMiddlewareOptions \<Rightarrow> 'm JwtMiddlewareOptions \<Rightarrow> 'm JwtMiddlewareOptions" where
  "spreadOptions a b =
     \<lparr> message = spreadProp (message a) (message b),
       expiresIn = spreadProp (expiresIn a) (expiresIn b),
       algorithms = spreadProp (algorithms a) (algorithms b) \<rparr>"

definition emptyOptions :: "'m JwtMiddlewareOptions" where
  "emptyOptions = \<lparr> message = Missing, expiresIn = Missing, algorithms = Missing \<rparr>"

text \<open>
  \<^verbatim>\<open>{ ...a, ...m }\<close> on message objects, where \<open>m\<close> is the value read from
  \<^verbatim>\<open>options.message\<close>: spreading \<^verbatim>\<open>undefined\<close> adds nothing.
\<close>

fun spreadMessage_p000 :: "Message_p000 \<Rightarrow> Message_p000 option \<Rightarrow> Message_p000" where
  "spreadMessage_p000 a None = a"
| "spreadMessage_p000 a (Some m) =
     \<lparr> success = spreadProp (success a) (success m),
       error = spreadProp (error a) (error m) \<rparr>"

definition emptyMessage_p000 :: Message_p000 where
  "emptyMessage_p000 = \<lparr> success = Missing, error = Missing \<rparr>"

text \<open>A parameter with a default value: the default is taken when the argument is left out.\<close>

fun orDefault :: "'a option \<Rightarrow> 'a \<Rightarrow> 'a" where
  "orDefault None d = d"
| "orDefault (Some v) d = v"

text \<open>
  The object literal at the head of \<^verbatim>\<open>jwtMiddleware\<close>:
  \<^verbatim>\<open>{ ...DEFAULT_OPTIONS, ...options, message: { ...DEFAULT_OPTIONS.message, ...options.message } }\<close>.
\<close>

definition mergedOptions_p000 ::
  "Message_p000 JwtMiddlewareOptions \<Rightarrow> Message_p000 JwtMiddlewareOptions" where
  "mergedOptions_p000 options =
     (spreadOptions (spreadOptions emptyOptions DEFAULT_OPTIONS) options)
       \<lparr> message :=
           Given (spreadMessage_p000
                    (spreadMessage_p000 emptyMessage_p000 (readProp (message DEFAULT_OPTIONS)))
                    (readProp (message options))) \<rparr>"

definition extractToken_p000 :: "Request \<Rightarrow> string option" where
  "extractToken_p000 req =
     (case authorization req of
        None \<Rightarrow> None
      | Some authHeader \<Rightarrow>
          if startsWith authHeader ''Bearer '' then Some (substring authHeader 7) else None)"

text \<open>
  The handler returned by \<^verbatim>\<open>jwtMiddleware(secretKey, options)\<close>, applied to a request.
  The library's \<^verbatim>\<open>verify\<close> is a parameter: it is given the token, the key and its
  options, and calls its callback once, with an error (\<open>Inl\<close>) or with the decoded
  payload (\<open>Inr\<close>). The result is the request as the handler leaves it and the effects
  in the order they happen. \<^verbatim>\<open>!token\<close> holds of \<^verbatim>\<open>undefined\<close> and of the empty string.
\<close>

definition jwtMiddleware_p000 ::
  "(string \<Rightarrow> string \<Rightarrow> VerifyOptions \<Rightarrow> 'e + JwtPayload) \<Rightarrow> string \<Rightarrow>
   Message_p000 JwtMiddlewareOptions option \<Rightarrow> Request \<Rightarrow> Request \<times> 'e Effect list" where
  "jwtMiddleware_p000 verify secretKey options req =
     (let merged = mergedOptions_p000 (orDefault options emptyOptions);
          msg = readProp (message merged);
          algs = readProp (algorithms merged);
          noToken = [Status 401, Json (ResBody (Some ''Unauthorized: No token provided''))]
      in case extractToken_p000 req of
           None \<Rightarrow> (req, noToken)
         | Some token \<Rightarrow>
             if token = [] then (req, noToken)
             else (case verify token secretKey (VerifyOptions algs) of
                     Inl err \<Rightarrow>
                       (case msg of
                          None \<Rightarrow> (req, [Throw])
                        | Some m \<Rightarrow> (req, [Status 401, Json (ResBody (readProp (error m)))]))
                   | Inr decoded \<Rightarrow>
                       (req \<lparr> user := Some decoded \<rparr>,
                        [Next (req \<lparr> user := Some decoded \<rparr>) []])))"

text \<open>
  \<^verbatim>\<open>generateToken\<close>: the library's \<^verbatim>\<open>sign\<close> is a parameter that returns the token or
  throws, and what it throws leaves \<^verbatim>\<open>generateToken\<close> as it is. \<^verbatim>\<open>algorithms[0]\<close>
  throws a TypeError when \<open>algorithms\<close> is \<^verbatim>\<open>undefined\<close> and is \<^verbatim>\<open>undefined\<close> when the
  array is empty.
\<close>

fun propagate :: "'x + string \<Rightarrow> 'x GenError + string" where
  "propagate (Inl e) = Inl (SignError e)"
| "propagate (Inr t) = Inr t"

text \<open>The object literal of \<^verbatim>\<open>generateToken\<close>: \<^verbatim>\<open>{ ...DEFAULT_OPTIONS, ...options }\<close>.\<close>

definition generateOptions_p000 ::
  "Message_p000 JwtMiddlewareOptions \<Rightarrow> Message_p000 JwtMiddlewareOptions" where
  "generateOptions_p000 options =
     spreadOptions (spreadOptions emptyOptions DEFAULT_OPTIONS) options"

definition generateToken_p000 ::
  "(JwtPayload \<Rightarrow> string \<Rightarrow> SignOptions \<Rightarrow> 'x + string) \<Rightarrow> JwtPayload \<Rightarrow> string \<Rightarrow>
   Message_p000 JwtMiddlewareOptions option \<Rightarrow> 'x GenError + string" where
  "generateToken_p000 sign payload secretKey options =
     (let merged = generateOptions_p000 (orDefault options emptyOptions)
      in case readProp (algorithms merged) of
           None \<Rightarrow> Inl TypeError
         | Some algs \<Rightarrow>
             propagate (sign payload secretKey
                          (SignOptions (readProp (expiresIn merged)) (index algs 0))))"

section \<open>Second file\<close>

definition defaultOptions :: "Message_p001 JwtMiddlewareOptions" where
  "defaultOptions =
     \<lparr> message =
         Given \<lparr> successMessage = Given ''Token is valid'', errorMessage = Given ''Invalid token'' \<rparr>,
       expiresIn = Given ''1h'',
       algorithms = Given [''HS256''] \<rparr>"

fun spreadMessage_p001 :: "Message_p001 \<Rightarrow> Message_p001 option \<Rightarrow> Message_p001" where
  "spreadMessage_p001 a None = a"
| "spreadMessage_p001 a (Some m) =
     \<lparr> successMessage = spreadProp (successMessage a) (successMessage m),
       errorMessage = spreadProp (errorMessage a) (errorMessage m) \<rparr>"

definition emptyMessage_p001 :: Message_p001 where
  "emptyMessage_p001 = \<lparr> successMessage = Missing, errorMessage = Missing \<rparr>"

definition mergedOptions_p001 ::
  "Message_p001 JwtMiddlewareOptions \<Rightarrow> Message_p001 JwtMiddlewareOptions" where
  "mergedOptions_p001 options =
     (spreadOptions (spreadOptions emptyOptions defaultOptions) options)
       \<lparr> message :=
           Given (spreadMessage_p001
                    (spreadMessage_p001 emptyMessage_p001 (readProp (message defaultOptions)))
                    (readProp (message options))) \<rparr>"

text \<open>
  The handler of the second file. It reads the header itself: \<^verbatim>\<open>!authorization\<close> holds of
  a missing header and of an empty one; the token is the header with the first
  \<^verbatim>\<open>"Bearer "\<close> removed. On success it calls \<^verbatim>\<open>next\<close> and leaves the request as it is.
\<close>

definition jwtMiddleware_p001 ::
  "(string \<Rightarrow> string \<Rightarrow> VerifyOptions \<Rightarrow> 'e + JwtPayload) \<Rightarrow> string \<Rightarrow>
   Message_p001 JwtMiddlewareOptions option \<Rightarrow> Request \<Rightarrow> Request \<times> 'e Effect list" where
  "jwtMiddleware_p001 verify secretKey options req =
     (let merged = mergedOptions_p001 (orDefault options defaultOptions);
          msg = readProp (message merged);
          algs = readProp (algorithms merged);
          unauthorized = [Status 401, Json (ResBody (Some ''Unauthorized''))];
          invalid = (case msg of
                       None \<Rightarrow> [Throw]
                     | Some m \<Rightarrow> [Status 401, Send (ResBody (readProp (errorMessage m)))])
      in case authorization req of
           None \<Rightarrow> (req, unauthorized)
         | Some auth \<Rightarrow>
             if auth = [] then (req, unauthorized)
             else (let token = replace auth ''Bearer '' []
                   in if token = [] then (req, invalid)
                      else (case verify token secretKey (VerifyOptions algs) of
                              Inl err \<Rightarrow> (req, invalid)
                            | Inr decoded \<Rightarrow> (req, [Next req []]))))"

text \<open>
  \<^verbatim>\<open>req.headers["authorization"]?.split(" ")[1] || ""\<close>: the second of the pieces between
  single spaces, the empty string when there is none.
\<close>

definition extractToken_p001 :: "Request \<Rightarrow> string" where
  "extractToken_p001 req =
     (case authorization req of
        None \<Rightarrow> []
      | Some auth \<Rightarrow> (case index (split auth CHR '' '') 1 of None \<Rightarrow> [] | Some t \<Rightarrow> t))"

definition generateOptions_p001 ::
  "Message_p001 JwtMiddlewareOptions \<Rightarrow> Message_p001 JwtMiddlewareOptions" where
  "generateOptions_p001 options =
     spreadOptions (spreadOptions emptyOptions defaultOptions) options"

definition generateToken_p001 ::
  "(JwtPayload \<Rightarrow> string \<Rightarrow> SignOptions \<Rightarrow> 'x + string) \<Rightarrow> JwtPayload \<Rightarrow> string \<Rightarrow>
   Message_p001 JwtMiddlewareOptions option \<Rightarrow> 'x GenError + string" where
  "generateToken_p001 sign payload secretKey options =
     (let merged = generateOptions_p001 (orDefault options defaultOptions)
      in case readProp (algorithms merged) of
           None \<Rightarrow> Inl TypeError
         | Some algs \<Rightarrow>
             propagate (sign payload secretKey
                          (SignOptions (readProp (expiresIn merged)) (index algs 0))))"

section \<open>Observations on a handler's effects\<close>

fun isResponse :: "'e Effect \<Rightarrow> bool" where
  "isResponse (Json b) = True"
| "isResponse (Send b) = True"
| "isResponse e = False"

fun isNext :: "'e Effect \<Rightarrow> bool" where
  "isNext (Next r args) = True"
| "isNext e = False"

definition responses :: "'e Effect list \<Rightarrow> nat" where
  "responses es = length (filter isResponse es)"

definition continuations :: "'e Effect list \<Rightarrow> nat" where
  "continuations es = length (filter isNext es)"

section \<open>Example primitives\<close>

text \<open>
  Stand-ins for the library's primitives, for evaluating the handlers on concrete requests:
  a \<^verbatim>\<open>verify\<close> that accepts every token and decodes it to one fixed payload, and one
  that rejects every token.
\<close>

definition examplePayload :: JwtPayload where
  "examplePayload = [''userId'' \<mapsto> ''42'']"

definition verifyAccept :: "string \<Rightarrow> string \<Rightarrow> VerifyOptions \<Rightarrow> string + JwtPayload" where
  "verifyAccept token secretKey opts = Inr examplePayload"

definition verifyReject :: "string \<Rightarrow> string \<Rightarrow> VerifyOptions \<Rightarrow> string + JwtPayload" where
  "verifyReject token secretKey opts = Inl ''JsonWebTokenError''"

definition emptyRequest :: Request where
  "emptyRequest = \<lparr> authorization = None, user = None \<rparr>"

text \<open>
  A pair of stand-ins that depend on what they are given: the token spells out the key, the
  signing algorithm (\<^verbatim>\<open>HS256\<close> when none is given) and the expiry, and verification
  accepts a token that starts with the key and one of the allowed algorithms
  (\<^verbatim>\<open>["HS256"]\<close> when none are given), decoding it to the fixed payload.
\<close>

definition toySign :: "JwtPayload \<Rightarrow> string \<Rightarrow> SignOptions \<Rightarrow> string + string" where
  "toySign payload secretKey opts =
     Inr (secretKey @ ''.'' @
          (case sign_algorithm opts of None \<Rightarrow> ''HS256'' | Some a \<Rightarrow> a) @ ''.'' @
          (case sign_expiresIn opts of None \<Rightarrow> [] | Some e \<Rightarrow> e))"

definition toyVerify :: "string \<Rightarrow> string \<Rightarrow> VerifyOptions \<Rightarrow> string + JwtPayload" where
  "toyVerify token secretKey opts =
     (if list_ex (\<lambda>a. startsWith token (secretKey @ ''.'' @ a @ ''.''))
           (case verify_algorithms opts of None \<Rightarrow> [''HS256''] | Some algs \<Rightarrow> algs)
      then Inr examplePayload
      else Inl ''JsonWebTokenError'')"

section \<open>What is assumed of the library's signing and verification\<close>

text \<open>
  The library's \<^verbatim>\<open>sign\<close> and \<^verbatim>\<open>verify\<close> are not part of the middleware. The round trip
  of a token through both is a property of that pair, taken here as an assumption on the
  two parameters, for a payload and a key: whatever options the payload is signed with,
  the token is not empty, and verifying it with the same key and a list of algorithms
  that contains the signing algorithm succeeds with a payload that holds every entry
  of the signed one (and may hold more: the registered claims that signing adds). The
  assumption speaks of a verification that happens before the token expires.
\<close>

definition signedTokensVerify ::
  "(JwtPayload \<Rightarrow> string \<Rightarrow> SignOptions \<Rightarrow> 'x + string) \<Rightarrow>
   (string \<Rightarrow> string \<Rightarrow> VerifyOptions \<Rightarrow> 'e + JwtPayload) \<Rightarrow> JwtPayload \<Rightarrow> string \<Rightarrow> bool" where
  "signedTokensVerify sign verify payload secretKey =
     (\<forall>opts token a algs.
        sign payload secretKey opts = Inr token \<and> sign_algorithm opts = Some a \<and> a \<in> set algs \<longrightarrow>
        token \<noteq> [] \<and>
        (\<exists>decoded. verify token secretKey (VerifyOptions (Some algs)) = Inr decoded \<and>
                   map_le payload decoded))"

section \<open>The merged configuration, as the handlers read it\<close>

lemma merged_message_p000:
  "readProp (message (mergedOptions_p000 opts)) =
     Some (spreadMessage_p000
             \<lparr> success = Given ''Token is valid'', error = Given ''Invalid token'' \<rparr>
             (readProp (message opts)))"
  by (simp add: mergedOptions_p000_def DEFAULT_OPTIONS_def emptyMessage_p000_def)

lemma merged_message_p001:
  "readProp (message (mergedOptions_p001 opts)) =
     Some (spreadMessage_p001
             \<lparr> successMessage = Given ''Token is valid'', errorMessage = Given ''Invalid token'' \<rparr>
             (readProp (message opts)))"
  by (simp add: mergedOptions_p001_def defaultOptions_def emptyMessage_p001_def)

lemma merged_algorithms_p000:
  "algorithms (mergedOptions_p000 opts) = spreadProp (Given [''HS256'']) (algorithms opts)"
  by (simp add: mergedOptions_p000_def spreadOptions_def DEFAULT_OPTIONS_def emptyOptions_def)

lemma merged_algorithms_p001:
  "algorithms (mergedOptions_p001 opts) = spreadProp (Given [''HS256'']) (algorithms opts)"
  by (simp add: mergedOptions_p001_def spreadOptions_def defaultOptions_def emptyOptions_def)

section \<open>One effect per call\<close>

text \<open>
  C1. Whatever the verification primitive answers, and for every key, options and request,
  each of the two handlers either emits one response (\<^verbatim>\<open>json\<close> or \<^verbatim>\<open>send\<close>) and does
  not call \<^verbatim>\<open>next\<close>, or calls \<^verbatim>\<open>next\<close> once and emits no response: never both, never
  neither.
\<close>

theorem handler_responds_or_continues:
  "((responses (snd (jwtMiddleware_p000 verify secretKey options req)) = 1 \<and>
     continuations (snd (jwtMiddleware_p000 verify secretKey options req)) = 0) \<or>
    (responses (snd (jwtMiddleware_p000 verify secretKey options req)) = 0 \<and>
     continuations (snd (jwtMiddleware_p000 verify secretKey options req)) = 1)) \<and>
   ((responses (snd (jwtMiddleware_p001 verify secretKey options' req)) = 1 \<and>
     continuations (snd (jwtMiddleware_p001 verify secretKey options' req)) = 0) \<or>
    (responses (snd (jwtMiddleware_p001 verify secretKey options' req)) = 0 \<and>
     continuations (snd (jwtMiddleware_p001 verify secretKey options' req)) = 1))"
proof
  show "(responses (snd (jwtMiddleware_p000 verify secretKey options req)) = 1 \<and>
     continuations (snd (jwtMiddleware_p000 verify secretKey options req)) = 0) \<or>
    (responses (snd (jwtMiddleware_p000 verify secretKey options req)) = 0 \<and>
     continuations (snd (jwtMiddleware_p000 verify secretKey options req)) = 1)"
    by (simp add: jwtMiddleware_p000_def merged_message_p000 responses_def continuations_def
        Let_def split: option.splits sum.splits)
next
  show "(responses (snd (jwtMiddleware_p001 verify secretKey options' req)) = 1 \<and>
     continuations (snd (jwtMiddleware_p001 verify secretKey options' req)) = 0) \<or>
    (responses (snd (jwtMiddleware_p001 verify secretKey options' req)) = 0 \<and>
     continuations (snd (jwtMiddleware_p001 verify secretKey options' req)) = 1)"
    by (simp add: jwtMiddleware_p001_def merged_message_p001 responses_def continuations_def
        Let_def split: option.splits sum.splits)
qed

theorem handler_responds_or_continues_witness:
  "responses (snd (jwtMiddleware_p000 verifyAccept ''s3cret'' None
      (emptyRequest \<lparr> authorization := Some ''Bearer abc'' \<rparr>))) = 0 \<and>
   continuations (snd (jwtMiddleware_p000 verifyAccept ''s3cret'' None
      (emptyRequest \<lparr> authorization := Some ''Bearer abc'' \<rparr>))) = 1 \<and>
   responses (snd (jwtMiddleware_p001 verifyAccept ''s3cret'' None
      (emptyRequest \<lparr> authorization := Some ''Bearer abc'' \<rparr>))) = 0 \<and>
   continuations (snd (jwtMiddleware_p001 verifyAccept ''s3cret'' None
      (emptyRequest \<lparr> authorization := Some ''Bearer abc'' \<rparr>))) = 1"
  using handler_responds_or_continues
    [of verifyAccept "''s3cret''" None "emptyRequest \<lparr> authorization := Some ''Bearer abc'' \<rparr>" None]
  by (simp add: jwtMiddleware_p000_def jwtMiddleware_p001_def extractToken_p000_def
      startsWith_def substring_def verifyAccept_def emptyRequest_def responses_def
      continuations_def merged_message_p000 merged_message_p001 Let_def)

section \<open>Requests without a usable token\<close>

text \<open>
  C3. A request with no Authorization header gets status 401 and one JSON body with the
  handler's fixed text, the request is left as it was, and \<^verbatim>\<open>next\<close> is not called;
  this holds of both handlers, whatever the verification primitive would answer.
\<close>

theorem no_authorization_header_is_401:
  assumes "authorization req = None"
  shows "jwtMiddleware_p000 verify secretKey options req =
           (req, [Status 401, Json (ResBody (Some ''Unauthorized: No token provided''))]) \<and>
         continuations (snd (jwtMiddleware_p000 verify secretKey options req)) = 0 \<and>
         jwtMiddleware_p001 verify secretKey options' req =
           (req, [Status 401, Json (ResBody (Some ''Unauthorized''))]) \<and>
         continuations (snd (jwtMiddleware_p001 verify secretKey options' req)) = 0"
  using assms
  by (simp add: jwtMiddleware_p000_def jwtMiddleware_p001_def extractToken_p000_def
      continuations_def Let_def)

theorem no_authorization_header_is_401_witness:
  "authorization emptyRequest = None \<and>
   jwtMiddleware_p000 verifyAccept ''s3cret'' None emptyRequest =
     (emptyRequest, [Status 401, Json (ResBody (Some ''Unauthorized: No token provided''))]) \<and>
   jwtMiddleware_p001 verifyAccept ''s3cret'' None emptyRequest =
     (emptyRequest, [Status 401, Json (ResBody (Some ''Unauthorized''))])"
proof -
  have h: "authorization emptyRequest = None"
    by (simp add: emptyRequest_def)
  from no_authorization_header_is_401 [OF h, of verifyAccept "''s3cret''" None None] h
  show ?thesis by simp
qed

text \<open>
  The first file on a header that does not start with \<^verbatim>\<open>"Bearer "\<close>, and on the bare
  prefix: no token is extracted, resp. an empty one, and the handler answers as for a
  missing header, without consulting the verification primitive.
\<close>

lemma extractToken_p000_other_scheme:
  assumes "authorization req = Some authHeader" and "\<not> startsWith authHeader ''Bearer ''"
  shows "extractToken_p000 req = None"
  using assms by (simp add: extractToken_p000_def)

lemma jwtMiddleware_p000_other_scheme:
  assumes "authorization req = Some authHeader" and "\<not> startsWith authHeader ''Bearer ''"
  shows "jwtMiddleware_p000 verify secretKey options req =
           (req, [Status 401, Json (ResBody (Some ''Unauthorized: No token provided''))])"
  using assms by (simp add: jwtMiddleware_p000_def extractToken_p000_def Let_def)

lemma jwtMiddleware_p000_bare_prefix:
  assumes "authorization req = Some ''Bearer ''"
  shows "extractToken_p000 req = Some []"
    and "jwtMiddleware_p000 verify secretKey options req =
           (req, [Status 401, Json (ResBody (Some ''Unauthorized: No token provided''))])"
  using assms
  by (simp_all add: jwtMiddleware_p000_def extractToken_p000_def startsWith_def substring_def
      Let_def)

section \<open>The request after a successful verification\<close>

text \<open>
  The first file on success: the decoded payload is in the request's \<open>user\<close> slot when
  \<^verbatim>\<open>next\<close> is called, and \<^verbatim>\<open>next\<close> gets no argument.
\<close>

lemma jwtMiddleware_p000_success:
  assumes "extractToken_p000 req = Some token" and "token \<noteq> []"
    and "verify token secretKey
           (VerifyOptions
              (readProp (algorithms (mergedOptions_p000 (orDefault options emptyOptions))))) =
         Inr decoded"
  shows "jwtMiddleware_p000 verify secretKey options req =
           (req \<lparr> user := Some decoded \<rparr>, [Next (req \<lparr> user := Some decoded \<rparr>) []])"
  using assms by (simp add: jwtMiddleware_p000_def Let_def)

text \<open>Neither handler ever passes an argument to \<^verbatim>\<open>next\<close>.\<close>

lemma next_without_arguments:
  "Next r args \<in> set (snd (jwtMiddleware_p000 verify secretKey options req)) \<Longrightarrow> args = []"
  "Next r args \<in> set (snd (jwtMiddleware_p001 verify secretKey options' req)) \<Longrightarrow> args = []"
  by (auto simp add: jwtMiddleware_p000_def jwtMiddleware_p001_def merged_message_p000
      merged_message_p001 Let_def split: option.splits sum.splits if_splits)

text \<open>The handler of the second file never writes to the request.\<close>

lemma jwtMiddleware_p001_request_untouched:
  "fst (jwtMiddleware_p001 verify secretKey options req) = req"
  by (simp add: jwtMiddleware_p001_def Let_def split: option.splits sum.splits)

text \<open>
  C2. The second file at a request on which verification succeeds (header
  \<^verbatim>\<open>Bearer abc\<close>, default options, a primitive that accepts and decodes to
  \<^verbatim>\<open>{userId: "42"}\<close>): \<^verbatim>\<open>next\<close> is called with no argument, but the \<open>user\<close> slot of the
  request is still empty, before and after. The first file attaches the payload
  (\<open>jwtMiddleware_p000_success\<close>).
\<close>

theorem jwtMiddleware_p001_success_user_unset:
  "verifyAccept ''abc'' ''s3cret'' (VerifyOptions (Some [''HS256''])) = Inr examplePayload \<and>
   jwtMiddleware_p001 verifyAccept ''s3cret'' None
       \<lparr> authorization = Some ''Bearer abc'', user = None \<rparr> =
     (\<lparr> authorization = Some ''Bearer abc'', user = None \<rparr>,
      [Next \<lparr> authorization = Some ''Bearer abc'', user = None \<rparr> []]) \<and>
   jwtMiddleware_p000 verifyAccept ''s3cret'' None
       \<lparr> authorization = Some ''Bearer abc'', user = None \<rparr> =
     (\<lparr> authorization = Some ''Bearer abc'', user = Some examplePayload \<rparr>,
      [Next \<lparr> authorization = Some ''Bearer abc'', user = Some examplePayload \<rparr> []])"
  by (simp add: jwtMiddleware_p001_def jwtMiddleware_p000_def extractToken_p000_def
      merged_message_p001 merged_message_p000 verifyAccept_def startsWith_def substring_def
      Let_def)

section \<open>The second file on the prefix of the header\<close>

text \<open>
  C4. The second file at the header \<^verbatim>\<open>Basic abc123\<close>, which does not start with
  \<^verbatim>\<open>"Bearer "\<close>: \<^verbatim>\<open>extractToken\<close> returns \<^verbatim>\<open>"abc123"\<close>, not the empty string; the
  handler hands the whole header to the verification primitive, answers with the
  configured error text when it rejects, and calls \<^verbatim>\<open>next\<close> when it accepts. The first
  file extracts nothing and answers with its fixed text
  (\<open>extractToken_p000_other_scheme\<close>, \<open>jwtMiddleware_p000_other_scheme\<close>).
\<close>

theorem jwtMiddleware_p001_other_scheme:
  "\<not> startsWith ''Basic abc123'' ''Bearer '' \<and>
   extractToken_p001 \<lparr> authorization = Some ''Basic abc123'', user = None \<rparr> = ''abc123'' \<and>
   jwtMiddleware_p001 verifyReject ''s3cret'' None
       \<lparr> authorization = Some ''Basic abc123'', user = None \<rparr> =
     (\<lparr> authorization = Some ''Basic abc123'', user = None \<rparr>,
      [Status 401, Send (ResBody (Some ''Invalid token''))]) \<and>
   jwtMiddleware_p001 verifyAccept ''s3cret'' None
       \<lparr> authorization = Some ''Basic abc123'', user = None \<rparr> =
     (\<lparr> authorization = Some ''Basic abc123'', user = None \<rparr>,
      [Next \<lparr> authorization = Some ''Basic abc123'', user = None \<rparr> []]) \<and>
   jwtMiddleware_p001 verifyReject ''s3cret'' None \<lparr> authorization = None, user = None \<rparr> =
     (\<lparr> authorization = None, user = None \<rparr>,
      [Status 401, Json (ResBody (Some ''Unauthorized''))])"
  by (simp add: jwtMiddleware_p001_def extractToken_p001_def merged_message_p001
      defaultOptions_def verifyAccept_def verifyReject_def startsWith_def Let_def)

section \<open>Merging the caller's options over the defaults\<close>

lemma spreadProp_override: "spreadProp d p = (if p = Missing then d else p)"
  by (cases p) simp_all

lemma spreadMessage_p000_override:
  "spreadMessage_p000 \<lparr> success = ds, error = de \<rparr> x =
     \<lparr> success = (case x of None \<Rightarrow> ds | Some m \<Rightarrow> if success m = Missing then ds else success m),
       error = (case x of None \<Rightarrow> de | Some m \<Rightarrow> if error m = Missing then de else error m) \<rparr>"
  by (cases x) (simp_all add: spreadProp_override)

lemma spreadMessage_p001_override:
  "spreadMessage_p001 \<lparr> successMessage = ds, errorMessage = de \<rparr> x =
     \<lparr> successMessage =
         (case x of None \<Rightarrow> ds
          | Some m \<Rightarrow> if successMessage m = Missing then ds else successMessage m),
       errorMessage =
         (case x of None \<Rightarrow> de
          | Some m \<Rightarrow> if errorMessage m = Missing then de else errorMessage m) \<rparr>"
  by (cases x) (simp_all add: spreadProp_override)

lemma mergedOptions_p000_fields:
  "expiresIn (mergedOptions_p000 opts) =
     (if expiresIn opts = Missing then Given ''1h'' else expiresIn opts)"
  "algorithms (mergedOptions_p000 opts) =
     (if algorithms opts = Missing then Given [''HS256''] else algorithms opts)"
  "message (mergedOptions_p000 opts) =
     Given \<lparr> success =
               (case readProp (message opts) of
                  None \<Rightarrow> Given ''Token is valid''
                | Some m \<Rightarrow> if success m = Missing then Given ''Token is valid'' else success m),
             error =
               (case readProp (message opts) of
                  None \<Rightarrow> Given ''Invalid token''
                | Some m \<Rightarrow> if error m = Missing then Given ''Invalid token'' else error m) \<rparr>"
  by (simp_all add: mergedOptions_p000_def spreadOptions_def DEFAULT_OPTIONS_def
      emptyOptions_def emptyMessage_p000_def spreadProp_override spreadMessage_p000_override)

lemma mergedOptions_p001_fields:
  "expiresIn (mergedOptions_p001 opts) =
     (if expiresIn opts = Missing then Given ''1h'' else expiresIn opts)"
  "algorithms (mergedOptions_p001 opts) =
     (if algorithms opts = Missing then Given [''HS256''] else algorithms opts)"
  "message (mergedOptions_p001 opts) =
     Given \<lparr> successMessage =
               (case readProp (message opts) of
                  None \<Rightarrow> Given ''Token is valid''
                | Some m \<Rightarrow>
                    if successMessage m = Missing then Given ''Token is valid''
                    else successMessage m),
             errorMessage =
               (case readProp (message opts) of
                  None \<Rightarrow> Given ''Invalid token''
                | Some m \<Rightarrow>
                    if errorMessage m = Missing then Given ''Invalid token''
                    else errorMessage m) \<rparr>"
  by (simp_all add: mergedOptions_p001_def spreadOptions_def defaultOptions_def
      emptyOptions_def emptyMessage_p001_def spreadProp_override spreadMessage_p001_override)

lemma generateOptions_fields:
  "expiresIn (generateOptions_p000 opts) =
     (if expiresIn opts = Missing then Given ''1h'' else expiresIn opts)"
  "algorithms (generateOptions_p000 opts) =
     (if algorithms opts = Missing then Given [''HS256''] else algorithms opts)"
  "expiresIn (generateOptions_p001 opts') =
     (if expiresIn opts' = Missing then Given ''1h'' else expiresIn opts')"
  "algorithms (generateOptions_p001 opts') =
     (if algorithms opts' = Missing then Given [''HS256''] else algorithms opts')"
  by (simp_all add: generateOptions_p000_def generateOptions_p001_def spreadOptions_def
      DEFAULT_OPTIONS_def defaultOptions_def emptyOptions_def spreadProp_override)

text \<open>
  The object that \<^verbatim>\<open>generateToken\<close> builds is a plain spread: it takes the caller's message
  object whole. \<^verbatim>\<open>generateToken\<close> reads \<open>expiresIn\<close> and \<open>algorithms\<close> of it only.
\<close>

lemma generateOptions_message:
  "message (generateOptions_p000 opts) =
     (if message opts = Missing then message DEFAULT_OPTIONS else message opts)"
  "message (generateOptions_p001 opts') =
     (if message opts' = Missing then message defaultOptions else message opts')"
  by (simp_all add: generateOptions_p000_def generateOptions_p001_def spreadOptions_def
      emptyOptions_def spreadProp_override)

section \<open>Issuing tokens\<close>

lemma generateToken_p000_given:
  "generateToken_p000 sign payload secretKey (Some opts) =
     (case readProp (if algorithms opts = Missing then Given [''HS256''] else algorithms opts) of
        None \<Rightarrow> Inl TypeError
      | Some algs \<Rightarrow>
          propagate (sign payload secretKey
            (SignOptions
               (readProp (if expiresIn opts = Missing then Given ''1h'' else expiresIn opts))
               (index algs 0))))"
  by (simp add: generateToken_p000_def generateOptions_fields Let_def cong: option.case_cong)

lemma generateToken_p001_given:
  "generateToken_p001 sign payload secretKey (Some opts) =
     (case readProp (if algorithms opts = Missing then Given [''HS256''] else algorithms opts) of
        None \<Rightarrow> Inl TypeError
      | Some algs \<Rightarrow>
          propagate (sign payload secretKey
            (SignOptions
               (readProp (if expiresIn opts = Missing then Given ''1h'' else expiresIn opts))
               (index algs 0))))"
  by (simp add: generateToken_p001_def generateOptions_fields Let_def cong: option.case_cong)

lemma generateToken_omitted:
  "generateToken_p000 sign payload secretKey None =
     propagate (sign payload secretKey (SignOptions (Some ''1h'') (Some ''HS256'')))"
  "generateToken_p001 sign payload secretKey None =
     propagate (sign payload secretKey (SignOptions (Some ''1h'') (Some ''HS256'')))"
  by (simp_all add: generateToken_p000_def generateToken_p001_def generateOptions_fields
      emptyOptions_def defaultOptions_def Let_def)

section \<open>What the handlers do with a token\<close>

text \<open>
  Once a token is at hand, the handler's answer is decided by the verification primitive,
  asked with the token, the key and the allowed algorithms: the caller's \<open>algorithms\<close>
  where the caller's options have the property, \<^verbatim>\<open>["HS256"]\<close> otherwise. A rejection
  is answered with the error text: the caller's where the caller's message object has it,
  \<^verbatim>\<open>"Invalid token"\<close> otherwise.
\<close>

lemma jwtMiddleware_p000_with_token:
  assumes "extractToken_p000 req = Some token" and "token \<noteq> []"
  shows "jwtMiddleware_p000 verify secretKey (Some opts) req =
     (case verify token secretKey
             (VerifyOptions
                (readProp (if algorithms opts = Missing then Given [''HS256'']
                           else algorithms opts))) of
        Inl err \<Rightarrow>
          (req,
           [Status 401,
            Json (ResBody (readProp
              (case readProp (message opts) of
                 None \<Rightarrow> Given ''Invalid token''
               | Some m \<Rightarrow> if error m = Missing then Given ''Invalid token'' else error m)))])
      | Inr decoded \<Rightarrow>
          (req \<lparr> user := Some decoded \<rparr>, [Next (req \<lparr> user := Some decoded \<rparr>) []]))"
  using assms
  by (simp add: jwtMiddleware_p000_def mergedOptions_p000_fields Let_def
      split: sum.splits option.splits)

lemma jwtMiddleware_p000_with_token_omitted:
  assumes "extractToken_p000 req = Some token" and "token \<noteq> []"
  shows "jwtMiddleware_p000 verify secretKey None req =
     (case verify token secretKey (VerifyOptions (Some [''HS256''])) of
        Inl err \<Rightarrow> (req, [Status 401, Json (ResBody (Some ''Invalid token''))])
      | Inr decoded \<Rightarrow>
          (req \<lparr> user := Some decoded \<rparr>, [Next (req \<lparr> user := Some decoded \<rparr>) []]))"
  using assms
  by (simp add: jwtMiddleware_p000_def mergedOptions_p000_fields emptyOptions_def Let_def
      split: sum.splits)

lemma jwtMiddleware_p001_with_token:
  assumes "authorization req = Some auth" and "auth \<noteq> []"
    and "replace auth ''Bearer '' [] = token" and "token \<noteq> []"
  shows "jwtMiddleware_p001 verify secretKey (Some opts) req =
     (case verify token secretKey
             (VerifyOptions
                (readProp (if algorithms opts = Missing then Given [''HS256'']
                           else algorithms opts))) of
        Inl err \<Rightarrow>
          (req,
           [Status 401,
            Send (ResBody (readProp
              (case readProp (message opts) of
                 None \<Rightarrow> Given ''Invalid token''
               | Some m \<Rightarrow>
                   if errorMessage m = Missing then Given ''Invalid token''
                   else errorMessage m)))])
      | Inr decoded \<Rightarrow> (req, [Next req []]))"
  using assms
  by (simp add: jwtMiddleware_p001_def mergedOptions_p001_fields Let_def
      split: sum.splits option.splits)

lemma jwtMiddleware_p001_with_token_omitted:
  assumes "authorization req = Some auth" and "auth \<noteq> []"
    and "replace auth ''Bearer '' [] = token" and "token \<noteq> []"
  shows "jwtMiddleware_p001 verify secretKey None req =
     (case verify token secretKey (VerifyOptions (Some [''HS256''])) of
        Inl err \<Rightarrow> (req, [Status 401, Send (ResBody (Some ''Invalid token''))])
      | Inr decoded \<Rightarrow> (req, [Next req []]))"
  using assms
  by (simp add: jwtMiddleware_p001_def mergedOptions_p001_fields defaultOptions_def Let_def
      split: sum.splits)

section \<open>The bare prefix\<close>

text \<open>
  C5, as stated, fails of the second file. At the header \<^verbatim>\<open>"Bearer "\<close> with nothing after
  it, configured with the error text \<^verbatim>\<open>"Custom"\<close>, its handler answers with the
  configured error text, as for an invalid token, whereas a request without the header
  gets the fixed text \<^verbatim>\<open>"Unauthorized"\<close>.
\<close>

theorem jwtMiddleware_p001_bare_prefix:
  "jwtMiddleware_p001 verifyAccept ''s3cret''
       (Some \<lparr> message = Given \<lparr> successMessage = Missing, errorMessage = Given ''Custom'' \<rparr>,
               expiresIn = Missing, algorithms = Missing \<rparr>)
       \<lparr> authorization = Some ''Bearer '', user = None \<rparr> =
     (\<lparr> authorization = Some ''Bearer '', user = None \<rparr>,
      [Status 401, Send (ResBody (Some ''Custom''))]) \<and>
   jwtMiddleware_p001 verifyAccept ''s3cret''
       (Some \<lparr> message = Given \<lparr> successMessage = Missing, errorMessage = Given ''Custom'' \<rparr>,
               expiresIn = Missing, algorithms = Missing \<rparr>)
       \<lparr> authorization = None, user = None \<rparr> =
     (\<lparr> authorization = None, user = None \<rparr>,
      [Status 401, Json (ResBody (Some ''Unauthorized''))])"
  by (simp add: jwtMiddleware_p001_def merged_message_p001 startsWith_def Let_def)

text \<open>
  C5, amended. On a request whose Authorization header is exactly \<^verbatim>\<open>"Bearer "\<close>, neither
  handler consults the verification primitive (the result is the same for every
  primitive), both answer 401 and neither calls \<^verbatim>\<open>next\<close>. The handler of the first file
  answers with its fixed missing-token text. The handler of the second file answers with
  the error text of its configuration: the caller's where the caller's message object has
  it, \<^verbatim>\<open>"Invalid token"\<close> otherwise.
\<close>

theorem bare_prefix_is_401:
  assumes "authorization req = Some ''Bearer ''"
  shows "jwtMiddleware_p000 verify secretKey options req =
           (req, [Status 401, Json (ResBody (Some ''Unauthorized: No token provided''))]) \<and>
         jwtMiddleware_p001 verify secretKey (Some opts') req =
           (req,
            [Status 401,
             Send (ResBody (readProp
               (case readProp (message opts') of
                  None \<Rightarrow> Given ''Invalid token''
                | Some m \<Rightarrow>
                    if errorMessage m = Missing then Given ''Invalid token''
                    else errorMessage m)))]) \<and>
         jwtMiddleware_p001 verify secretKey None req =
           (req, [Status 401, Send (ResBody (Some ''Invalid token''))])"
  using assms
  by (simp add: jwtMiddleware_p000_bare_prefix jwtMiddleware_p001_def
      mergedOptions_p001_fields defaultOptions_def startsWith_def Let_def
      split: option.splits)

theorem bare_prefix_is_401_witness:
  "authorization \<lparr> authorization = Some ''Bearer '', user = None \<rparr> = Some ''Bearer '' \<and>
   jwtMiddleware_p000 toyVerify ''s3cret'' None
       \<lparr> authorization = Some ''Bearer '', user = None \<rparr> =
     (\<lparr> authorization = Some ''Bearer '', user = None \<rparr>,
      [Status 401, Json (ResBody (Some ''Unauthorized: No token provided''))]) \<and>
   jwtMiddleware_p001 toyVerify ''s3cret''
       (Some \<lparr> message = Given \<lparr> successMessage = Missing, errorMessage = Given ''Denied'' \<rparr>,
               expiresIn = Missing, algorithms = Missing \<rparr>)
       \<lparr> authorization = Some ''Bearer '', user = None \<rparr> =
     (\<lparr> authorization = Some ''Bearer '', user = None \<rparr>,
      [Status 401, Send (ResBody (Some ''Denied''))])"
proof -
  have h: "authorization \<lparr> authorization = Some ''Bearer '', user = None \<rparr> = Some ''Bearer ''"
    by simp
  from bare_prefix_is_401
    [OF h, where verify = toyVerify and secretKey = "''s3cret''" and options = None
       and opts' = "\<lparr> message = Given \<lparr> successMessage = Missing,
                                         errorMessage = Given ''Denied'' \<rparr>,
                      expiresIn = Missing, algorithms = Missing \<rparr>"]
    h
  show ?thesis by simp
qed

section \<open>The configuration in use\<close>

text \<open>
  C7, as stated, fails of \<^verbatim>\<open>generateToken\<close>: its object is a plain spread, so a caller
  who supplies the error text only gets a message object without a success text, not
  the default one. This holds in both files.
\<close>

theorem generateOptions_message_replaced:
  "message (generateOptions_p000
      \<lparr> message = Given \<lparr> success = Missing, error = Given ''Custom'' \<rparr>,
        expiresIn = Missing, algorithms = Missing \<rparr>) =
     Given \<lparr> success = Missing, error = Given ''Custom'' \<rparr> \<and>
   readProp (success \<lparr> success = Missing, error = Given ''Custom'' \<rparr>) = None \<and>
   message (generateOptions_p001
      \<lparr> message = Given \<lparr> successMessage = Missing, errorMessage = Given ''Custom'' \<rparr>,
        expiresIn = Missing, algorithms = Missing \<rparr>) =
     Given \<lparr> successMessage = Missing, errorMessage = Given ''Custom'' \<rparr> \<and>
   readProp (successMessage \<lparr> successMessage = Missing, errorMessage = Given ''Custom'' \<rparr>) =
     None"
  by (simp add: generateOptions_message)

lemma generateToken_p000_defined:
  assumes "algorithms opts \<noteq> Undefined"
  shows "generateToken_p000 sign payload secretKey (Some opts) =
     propagate (sign payload secretKey
       (SignOptions
          (readProp (if expiresIn opts = Missing then Given ''1h'' else expiresIn opts))
          (index (case algorithms opts of Given algs \<Rightarrow> algs | _ \<Rightarrow> [''HS256'']) 0)))"
  using assms by (cases "algorithms opts") (simp_all add: generateToken_p000_given)

lemma generateToken_p001_defined:
  assumes "algorithms opts \<noteq> Undefined"
  shows "generateToken_p001 sign payload secretKey (Some opts) =
     propagate (sign payload secretKey
       (SignOptions
          (readProp (if expiresIn opts = Missing then Given ''1h'' else expiresIn opts))
          (index (case algorithms opts of Given algs \<Rightarrow> algs | _ \<Rightarrow> [''HS256'']) 0)))"
  using assms by (cases "algorithms opts") (simp_all add: generateToken_p001_given)

text \<open>
  C7, amended. In both files the configuration that \<^verbatim>\<open>jwtMiddleware\<close> uses is the defaults
  overridden property by property, with the message pair merged on its own: each text is
  the caller's where the caller's message object has it and the default otherwise, so
  supplying one text keeps the default of the other. The handler asks the verification
  primitive with the allowed algorithms so obtained and answers a rejection with the error
  text so obtained; with the options left out it uses \<^verbatim>\<open>["HS256"]\<close> and
  \<^verbatim>\<open>"Invalid token"\<close>. \<^verbatim>\<open>generateToken\<close> merges by a plain spread: \<open>expiresIn\<close> and
  \<open>algorithms\<close>, which it hands to the signing primitive, are overridden property by
  property, and a message object of the caller replaces the default pair whole.
\<close>

theorem options_override_defaults:
  "expiresIn (mergedOptions_p000 opts) =
     (if expiresIn opts = Missing then Given ''1h'' else expiresIn opts) \<and>
   algorithms (mergedOptions_p000 opts) =
     (if algorithms opts = Missing then Given [''HS256''] else algorithms opts) \<and>
   message (mergedOptions_p000 opts) =
     Given \<lparr> success =
               (case readProp (message opts) of
                  None \<Rightarrow> Given ''Token is valid''
                | Some m \<Rightarrow> if success m = Missing then Given ''Token is valid'' else success m),
             error =
               (case readProp (message opts) of
                  None \<Rightarrow> Given ''Invalid token''
                | Some m \<Rightarrow> if error m = Missing then Given ''Invalid token'' else error m) \<rparr> \<and>
   (extractToken_p000 req = Some token \<and> token \<noteq> [] \<longrightarrow>
      jwtMiddleware_p000 verify secretKey (Some opts) req =
        (case verify token secretKey
                (VerifyOptions
                   (readProp (if algorithms opts = Missing then Given [''HS256'']
                              else algorithms opts))) of
           Inl err \<Rightarrow>
             (req,
              [Status 401,
               Json (ResBody (readProp
                 (case readProp (message opts) of
                    None \<Rightarrow> Given ''Invalid token''
                  | Some m \<Rightarrow> if error m = Missing then Given ''Invalid token'' else error m)))])
         | Inr decoded \<Rightarrow>
             (req \<lparr> user := Some decoded \<rparr>, [Next (req \<lparr> user := Some decoded \<rparr>) []]))) \<and>
   (extractToken_p000 req = Some token \<and> token \<noteq> [] \<longrightarrow>
      jwtMiddleware_p000 verify secretKey None req =
        (case verify token secretKey (VerifyOptions (Some [''HS256''])) of
           Inl err \<Rightarrow> (req, [Status 401, Json (ResBody (Some ''Invalid token''))])
         | Inr decoded \<Rightarrow>
             (req \<lparr> user := Some decoded \<rparr>, [Next (req \<lparr> user := Some decoded \<rparr>) []]))) \<and>
   expiresIn (generateOptions_p000 opts) =
     (if expiresIn opts = Missing then Given ''1h'' else expiresIn opts) \<and>
   algorithms (generateOptions_p000 opts) =
     (if algorithms opts = Missing then Given [''HS256''] else algorithms opts) \<and>
   message (generateOptions_p000 opts) =
     (if message opts = Missing
      then Given \<lparr> success = Given ''Token is valid'', error = Given ''Invalid token'' \<rparr>
      else message opts) \<and>
   (algorithms opts \<noteq> Undefined \<longrightarrow>
      generateToken_p000 sign payload secretKey (Some opts) =
        propagate (sign payload secretKey
          (SignOptions
             (readProp (if expiresIn opts = Missing then Given ''1h'' else expiresIn opts))
             (index (case algorithms opts of Given algs \<Rightarrow> algs | _ \<Rightarrow> [''HS256'']) 0)))) \<and>
   generateToken_p000 sign payload secretKey None =
     propagate (sign payload secretKey (SignOptions (Some ''1h'') (Some ''HS256''))) \<and>
   expiresIn (mergedOptions_p001 opts') =
     (if expiresIn opts' = Missing then Given ''1h'' else expiresIn opts') \<and>
   algorithms (mergedOptions_p001 opts') =
     (if algorithms opts' = Missing then Given [''HS256''] else algorithms opts') \<and>
   message (mergedOptions_p001 opts') =
     Given \<lparr> successMessage =
               (case readProp (message opts') of
                  None \<Rightarrow> Given ''Token is valid''
                | Some m \<Rightarrow>
                    if successMessage m = Missing then Given ''Token is valid''
                    else successMessage m),
             errorMessage =
               (case readProp (message opts') of
                  None \<Rightarrow> Given ''Invalid token''
                | Some m \<Rightarrow>
                    if errorMessage m = Missing then Given ''Invalid token''
                    else errorMessage m) \<rparr> \<and>
   (authorization req = Some auth \<and> auth \<noteq> [] \<and>
    replace auth ''Bearer '' [] = token' \<and> token' \<noteq> [] \<longrightarrow>
      jwtMiddleware_p001 verify secretKey (Some opts') req =
        (case verify token' secretKey
                (VerifyOptions
                   (readProp (if algorithms opts' = Missing then Given [''HS256'']
                              else algorithms opts'))) of
           Inl err \<Rightarrow>
             (req,
              [Status 401,
               Send (ResBody (readProp
                 (case readProp (message opts') of
                    None \<Rightarrow> Given ''Invalid token''
                  | Some m \<Rightarrow>
                      if errorMessage m = Missing then Given ''Invalid token''
                      else errorMessage m)))])
         | Inr decoded \<Rightarrow> (req, [Next req []]))) \<and>
   (authorization req = Some auth \<and> auth \<noteq> [] \<and>
    replace auth ''Bearer '' [] = token' \<and> token' \<noteq> [] \<longrightarrow>
      jwtMiddleware_p001 verify secretKey None req =
        (case verify token' secretKey (VerifyOptions (Some [''HS256''])) of
           Inl err \<Rightarrow> (req, [Status 401, Send (ResBody (Some ''Invalid token''))])
         | Inr decoded \<Rightarrow> (req, [Next req []]))) \<and>
   expiresIn (generateOptions_p001 opts') =
     (if expiresIn opts' = Missing then Given ''1h'' else expiresIn opts') \<and>
   algorithms (generateOptions_p001 opts') =
     (if algorithms opts' = Missing then Given [''HS256''] else algorithms opts') \<and>
   message (generateOptions_p001 opts') =
     (if message opts' = Missing
      then Given \<lparr> successMessage = Given ''Token is valid'',
                   errorMessage = Given ''Invalid token'' \<rparr>
      else message opts') \<and>
   (algorithms opts' \<noteq> Undefined \<longrightarrow>
      generateToken_p001 sign payload secretKey (Some opts') =
        propagate (sign payload secretKey
          (SignOptions
             (readProp (if expiresIn opts' = Missing then Given ''1h'' else expiresIn opts'))
             (index (case algorithms opts' of Given algs \<Rightarrow> algs | _ \<Rightarrow> [''HS256'']) 0)))) \<and>
   generateToken_p001 sign payload secretKey None =
     propagate (sign payload secretKey (SignOptions (Some ''1h'') (Some ''HS256'')))"
proof (intro conjI impI)
  assume "extractToken_p000 req = Some token \<and> token \<noteq> []"
  then show "jwtMiddleware_p000 verify secretKey (Some opts) req =
        (case verify token secretKey
                (VerifyOptions
                   (readProp (if algorithms opts = Missing then Given [''HS256'']
                              else algorithms opts))) of
           Inl err \<Rightarrow>
             (req,
              [Status 401,
               Json (ResBody (readProp
                 (case readProp (message opts) of
                    None \<Rightarrow> Given ''Invalid token''
                  | Some m \<Rightarrow> if error m = Missing then Given ''Invalid token'' else error m)))])
         | Inr decoded \<Rightarrow>
             (req \<lparr> user := Some decoded \<rparr>, [Next (req \<lparr> user := Some decoded \<rparr>) []]))"
    by (intro jwtMiddleware_p000_with_token) simp_all
next
  assume "extractToken_p000 req = Some token \<and> token \<noteq> []"
  then show "jwtMiddleware_p000 verify secretKey None req =
        (case verify token secretKey (VerifyOptions (Some [''HS256''])) of
           Inl err \<Rightarrow> (req, [Status 401, Json (ResBody (Some ''Invalid token''))])
         | Inr decoded \<Rightarrow>
             (req \<lparr> user := Some decoded \<rparr>, [Next (req \<lparr> user := Some decoded \<rparr>) []]))"
    by (intro jwtMiddleware_p000_with_token_omitted) simp_all
next
  assume "authorization req = Some auth \<and> auth \<noteq> [] \<and>
    replace auth ''Bearer '' [] = token' \<and> token' \<noteq> []"
  then show "jwtMiddleware_p001 verify secretKey (Some opts') req =
        (case verify token' secretKey
                (VerifyOptions
                   (readProp (if algorithms opts' = Missing then Given [''HS256'']
                              else algorithms opts'))) of
           Inl err \<Rightarrow>
             (req,
              [Status 401,
               Send (ResBody (readProp
                 (case readProp (message opts') of
                    None \<Rightarrow> Given ''Invalid token''
                  | Some m \<Rightarrow>
                      if errorMessage m = Missing then Given ''Invalid token''
                      else errorMessage m)))])
         | Inr decoded \<Rightarrow> (req, [Next req []]))"
    by (intro jwtMiddleware_p001_with_token [where auth = auth]) simp_all
next
  assume "authorization req = Some auth \<and> auth \<noteq> [] \<and>
    replace auth ''Bearer '' [] = token' \<and> token' \<noteq> []"
  then show "jwtMiddleware_p001 verify secretKey None req =
        (case verify token' secretKey (VerifyOptions (Some [''HS256''])) of
           Inl err \<Rightarrow> (req, [Status 401, Send (ResBody (Some ''Invalid token''))])
         | Inr decoded \<Rightarrow> (req, [Next req []]))"
    by (intro jwtMiddleware_p001_with_token_omitted [where auth = auth]) simp_all
next
  assume "algorithms opts \<noteq> Undefined"
  then show "generateToken_p000 sign payload secretKey (Some opts) =
        propagate (sign payload secretKey
          (SignOptions
             (readProp (if expiresIn opts = Missing then Given ''1h'' else expiresIn opts))
             (index (case algorithms opts of Given algs \<Rightarrow> algs | _ \<Rightarrow> [''HS256'']) 0)))"
    by (rule generateToken_p000_defined)
next
  assume "algorithms opts' \<noteq> Undefined"
  then show "generateToken_p001 sign payload secretKey (Some opts') =
        propagate (sign payload secretKey
          (SignOptions
             (readProp (if expiresIn opts' = Missing then Given ''1h'' else expiresIn opts'))
             (index (case algorithms opts' of Given algs \<Rightarrow> algs | _ \<Rightarrow> [''HS256'']) 0)))"
    by (rule generateToken_p001_defined)
qed (simp_all only: mergedOptions_p000_fields mergedOptions_p001_fields generateOptions_fields
      generateOptions_message generateToken_omitted DEFAULT_OPTIONS_def defaultOptions_def
      JwtMiddlewareOptions.simps)

theorem options_override_defaults_witness:
  "extractToken_p000 \<lparr> authorization = Some ''Bearer other.HS256.1h'', user = None \<rparr> =
     Some ''other.HS256.1h'' \<and>
   replace ''Bearer other.HS256.1h'' ''Bearer '' [] = ''other.HS256.1h'' \<and>
   mergedOptions_p000
     \<lparr> message = Given \<lparr> success = Missing, error = Given ''Custom'' \<rparr>,
       expiresIn = Given ''2h'', algorithms = Missing \<rparr> =
   \<lparr> message = Given \<lparr> success = Given ''Token is valid'', error = Given ''Custom'' \<rparr>,
     expiresIn = Given ''2h'', algorithms = Given [''HS256''] \<rparr> \<and>
   jwtMiddleware_p000 toyVerify ''s3cret''
     (Some \<lparr> message = Given \<lparr> success = Missing, error = Given ''Custom'' \<rparr>,
             expiresIn = Given ''2h'', algorithms = Missing \<rparr>)
     \<lparr> authorization = Some ''Bearer other.HS256.1h'', user = None \<rparr> =
   (\<lparr> authorization = Some ''Bearer other.HS256.1h'', user = None \<rparr>,
    [Status 401, Json (ResBody (Some ''Custom''))]) \<and>
   generateToken_p000 toySign examplePayload ''s3cret''
     (Some \<lparr> message = Given \<lparr> success = Missing, error = Given ''Custom'' \<rparr>,
             expiresIn = Given ''2h'', algorithms = Missing \<rparr>) = Inr ''s3cret.HS256.2h'' \<and>
   mergedOptions_p001
     \<lparr> message = Given \<lparr> successMessage = Given ''Welcome'', errorMessage = Missing \<rparr>,
       expiresIn = Missing, algorithms = Given [''HS512'', ''HS256''] \<rparr> =
   \<lparr> message = Given \<lparr> successMessage = Given ''Welcome'', errorMessage = Given ''Invalid token'' \<rparr>,
     expiresIn = Given ''1h'', algorithms = Given [''HS512'', ''HS256''] \<rparr> \<and>
   jwtMiddleware_p001 toyVerify ''s3cret''
     (Some \<lparr> message = Given \<lparr> successMessage = Given ''Welcome'', errorMessage = Missing \<rparr>,
             expiresIn = Missing, algorithms = Given [''HS512'', ''HS256''] \<rparr>)
     \<lparr> authorization = Some ''Bearer other.HS256.1h'', user = None \<rparr> =
   (\<lparr> authorization = Some ''Bearer other.HS256.1h'', user = None \<rparr>,
    [Status 401, Send (ResBody (Some ''Invalid token''))]) \<and>
   generateToken_p001 toySign examplePayload ''s3cret''
     (Some \<lparr> message = Given \<lparr> successMessage = Given ''Welcome'', errorMessage = Missing \<rparr>,
             expiresIn = Missing, algorithms = Given [''HS512'', ''HS256''] \<rparr>) =
     Inr ''s3cret.HS512.1h''"
proof -
  have h1: "extractToken_p000 \<lparr> authorization = Some ''Bearer other.HS256.1h'', user = None \<rparr> =
     Some ''other.HS256.1h''"
    by (simp add: extractToken_p000_def startsWith_def substring_def)
  have h2: "replace ''Bearer other.HS256.1h'' ''Bearer '' [] = ''other.HS256.1h''"
    by (simp add: startsWith_def)
  from options_override_defaults
    [where opts = "\<lparr> message = Given \<lparr> success = Missing, error = Given ''Custom'' \<rparr>,
                      expiresIn = Given ''2h'', algorithms = Missing \<rparr>"
       and opts' = "\<lparr> message = Given \<lparr> successMessage = Given ''Welcome'',
                                         errorMessage = Missing \<rparr>,
                      expiresIn = Missing, algorithms = Given [''HS512'', ''HS256''] \<rparr>"
       and req = "\<lparr> authorization = Some ''Bearer other.HS256.1h'', user = None \<rparr>"
       and token = "''other.HS256.1h''" and token' = "''other.HS256.1h''"
       and auth = "''Bearer other.HS256.1h''"
       and verify = toyVerify and secretKey = "''s3cret''"
       and sign = toySign and payload = examplePayload]
    h1 h2
  show ?thesis
    by (simp add: toyVerify_def toySign_def startsWith_def JwtMiddlewareOptions.equality)
qed

section \<open>Options that hold \<open>algorithms\<close> with no value\<close>

text \<open>
  C8. \<^verbatim>\<open>generateToken\<close> of either file at options whose \<open>algorithms\<close> property is present
  with the value \<^verbatim>\<open>undefined\<close>: the spread keeps it over the default, \<^verbatim>\<open>algorithms[0]\<close>
  throws a TypeError, and the signing primitive, which returns a token for every options
  object it could have been given, is not called. On every other input the signing
  primitive is called as the claim says (\<open>generateToken_p000_defined\<close>,
  \<open>generateToken_p001_defined\<close>, \<open>generateToken_omitted\<close>).
\<close>

theorem generateToken_undefined_algorithms_throws:
  "generateToken_p000 toySign examplePayload ''s3cret''
     (Some \<lparr> message = Missing, expiresIn = Missing, algorithms = Undefined \<rparr>) = Inl TypeError \<and>
   generateToken_p001 toySign examplePayload ''s3cret''
     (Some \<lparr> message = Missing, expiresIn = Missing, algorithms = Undefined \<rparr>) = Inl TypeError \<and>
   (\<forall>signOptions. \<exists>token.
      propagate (toySign examplePayload ''s3cret'' signOptions) = Inr token)"
  by (simp add: generateToken_p000_given generateToken_p001_given toySign_def)

text \<open>Of a list \<open>a # rest\<close> only \<open>a\<close> reaches the signing primitive.\<close>

lemma generateToken_first_algorithm:
  "generateToken_p000 sign payload secretKey (Some (opts \<lparr> algorithms := Given (a # rest) \<rparr>)) =
     propagate (sign payload secretKey
       (SignOptions
          (readProp (if expiresIn opts = Missing then Given ''1h'' else expiresIn opts))
          (Some a)))"
  "generateToken_p001 sign payload secretKey (Some (opts' \<lparr> algorithms := Given (a # rest) \<rparr>)) =
     propagate (sign payload secretKey
       (SignOptions
          (readProp (if expiresIn opts' = Missing then Given ''1h'' else expiresIn opts'))
          (Some a)))"
  by (simp_all add: generateToken_p000_given generateToken_p001_given)

section \<open>The allowed algorithms in use\<close>

text \<open>
  C9, as stated, fails for a caller who supplies an empty list: the merge keeps it, in
  \<^verbatim>\<open>jwtMiddleware\<close> and in \<^verbatim>\<open>generateToken\<close>, and element 0 of it is \<^verbatim>\<open>undefined\<close>.
\<close>

theorem merged_algorithms_empty:
  "readProp (algorithms (mergedOptions_p000
       \<lparr> message = Missing, expiresIn = Missing, algorithms = Given [] \<rparr>)) = Some [] \<and>
   readProp (algorithms (generateOptions_p000
       \<lparr> message = Missing, expiresIn = Missing, algorithms = Given [] \<rparr>)) = Some [] \<and>
   readProp (algorithms (mergedOptions_p001
       \<lparr> message = Missing, expiresIn = Missing, algorithms = Given [] \<rparr>)) = Some [] \<and>
   readProp (algorithms (generateOptions_p001
       \<lparr> message = Missing, expiresIn = Missing, algorithms = Given [] \<rparr>)) = Some [] \<and>
   index ([] :: Algorithm list) 0 = None \<and>
   generateToken_p000 toySign examplePayload ''s3cret''
     (Some \<lparr> message = Missing, expiresIn = Missing, algorithms = Given [] \<rparr>) =
     propagate (toySign examplePayload ''s3cret'' (SignOptions (Some ''1h'') None))"
  by (simp add: mergedOptions_p000_fields mergedOptions_p001_fields generateOptions_fields
      generateToken_p000_given)

text \<open>
  C9, amended. The list of allowed algorithms that \<^verbatim>\<open>jwtMiddleware\<close> and
  \<^verbatim>\<open>generateToken\<close> use is the caller's own list where the caller supplies one, kept as it
  is, an empty list included, and \<^verbatim>\<open>["HS256"]\<close> where the caller's options have no
  \<open>algorithms\<close> or are left out: it is the list in the merged object, the list the
  verification primitive is asked with, and the list whose element 0 goes to the signing
  primitive. So whenever the caller omits \<open>algorithms\<close> or supplies a non-empty list, the
  list in use is non-empty and its element 0 is defined. This holds in both files.
\<close>

theorem allowed_algorithms_in_use:
  "(algorithms opts = Missing \<and> algs = [''HS256''] \<or> algorithms opts = Given algs \<longrightarrow>
      readProp (algorithms (mergedOptions_p000 opts)) = Some algs \<and>
      readProp (algorithms (generateOptions_p000 opts)) = Some algs \<and>
      generateToken_p000 sign payload secretKey (Some opts) =
        propagate (sign payload secretKey
          (SignOptions
             (readProp (if expiresIn opts = Missing then Given ''1h'' else expiresIn opts))
             (index algs 0))) \<and>
      (extractToken_p000 req = Some token \<and> token \<noteq> [] \<longrightarrow>
         jwtMiddleware_p000 verify secretKey (Some opts) req =
           (case verify token secretKey (VerifyOptions (Some algs)) of
              Inl err \<Rightarrow>
                (req,
                 [Status 401,
                  Json (ResBody (readProp
                    (case readProp (message opts) of
                       None \<Rightarrow> Given ''Invalid token''
                     | Some m \<Rightarrow>
                         if error m = Missing then Given ''Invalid token'' else error m)))])
            | Inr decoded \<Rightarrow>
                (req \<lparr> user := Some decoded \<rparr>, [Next (req \<lparr> user := Some decoded \<rparr>) []])))) \<and>
   (algorithms opts' = Missing \<and> algs' = [''HS256''] \<or> algorithms opts' = Given algs' \<longrightarrow>
      readProp (algorithms (mergedOptions_p001 opts')) = Some algs' \<and>
      readProp (algorithms (generateOptions_p001 opts')) = Some algs' \<and>
      generateToken_p001 sign payload secretKey (Some opts') =
        propagate (sign payload secretKey
          (SignOptions
             (readProp (if expiresIn opts' = Missing then Given ''1h'' else expiresIn opts'))
             (index algs' 0))) \<and>
      (authorization req = Some auth \<and> auth \<noteq> [] \<and>
       replace auth ''Bearer '' [] = token' \<and> token' \<noteq> [] \<longrightarrow>
         jwtMiddleware_p001 verify secretKey (Some opts') req =
           (case verify token' secretKey (VerifyOptions (Some algs')) of
              Inl err \<Rightarrow>
                (req,
                 [Status 401,
                  Send (ResBody (readProp
                    (case readProp (message opts') of
                       None \<Rightarrow> Given ''Invalid token''
                     | Some m \<Rightarrow>
                         if errorMessage m = Missing then Given ''Invalid token''
                         else errorMessage m)))])
            | Inr decoded \<Rightarrow> (req, [Next req []])))) \<and>
   (extractToken_p000 req = Some token \<and> token \<noteq> [] \<longrightarrow>
      jwtMiddleware_p000 verify secretKey None req =
        (case verify token secretKey (VerifyOptions (Some [''HS256''])) of
           Inl err \<Rightarrow> (req, [Status 401, Json (ResBody (Some ''Invalid token''))])
         | Inr decoded \<Rightarrow>
             (req \<lparr> user := Some decoded \<rparr>, [Next (req \<lparr> user := Some decoded \<rparr>) []]))) \<and>
   (authorization req = Some auth \<and> auth \<noteq> [] \<and>
    replace auth ''Bearer '' [] = token' \<and> token' \<noteq> [] \<longrightarrow>
      jwtMiddleware_p001 verify secretKey None req =
        (case verify token' secretKey (VerifyOptions (Some [''HS256''])) of
           Inl err \<Rightarrow> (req, [Status 401, Send (ResBody (Some ''Invalid token''))])
         | Inr decoded \<Rightarrow> (req, [Next req []]))) \<and>
   generateToken_p000 sign payload secretKey None =
     propagate (sign payload secretKey (SignOptions (Some ''1h'') (Some ''HS256''))) \<and>
   generateToken_p001 sign payload secretKey None =
     propagate (sign payload secretKey (SignOptions (Some ''1h'') (Some ''HS256''))) \<and>
   index ([] :: Algorithm list) 0 = None \<and>
   index (a # rest) 0 = Some a"
proof -
  have p000: "algorithms opts = Missing \<and> algs = [''HS256''] \<or> algorithms opts = Given algs \<longrightarrow>
      readProp (algorithms (mergedOptions_p000 opts)) = Some algs \<and>
      readProp (algorithms (generateOptions_p000 opts)) = Some algs \<and>
      generateToken_p000 sign payload secretKey (Some opts) =
        propagate (sign payload secretKey
          (SignOptions
             (readProp (if expiresIn opts = Missing then Given ''1h'' else expiresIn opts))
             (index algs 0))) \<and>
      (extractToken_p000 req = Some token \<and> token \<noteq> [] \<longrightarrow>
         jwtMiddleware_p000 verify secretKey (Some opts) req =
           (case verify token secretKey (VerifyOptions (Some algs)) of
              Inl err \<Rightarrow>
                (req,
                 [Status 401,
                  Json (ResBody (readProp
                    (case readProp (message opts) of
                       None \<Rightarrow> Given ''Invalid token''
                     | Some m \<Rightarrow>
                         if error m = Missing then Given ''Invalid token'' else error m)))])
            | Inr decoded \<Rightarrow>
                (req \<lparr> user := Some decoded \<rparr>, [Next (req \<lparr> user := Some decoded \<rparr>) []])))"
  proof
    assume that: "algorithms opts = Missing \<and> algs = [''HS256''] \<or> algorithms opts = Given algs"
    from that have r: "readProp (if algorithms opts = Missing then Given [''HS256'']
                                 else algorithms opts) = Some algs"
      by auto
    from that have d: "algorithms opts \<noteq> Undefined"
      and l: "(case algorithms opts of Given xs \<Rightarrow> xs | _ \<Rightarrow> [''HS256'']) = algs"
      by auto
    show "readProp (algorithms (mergedOptions_p000 opts)) = Some algs \<and>
      readProp (algorithms (generateOptions_p000 opts)) = Some algs \<and>
      generateToken_p000 sign payload secretKey (Some opts) =
        propagate (sign payload secretKey
          (SignOptions
             (readProp (if expiresIn opts = Missing then Given ''1h'' else expiresIn opts))
             (index algs 0))) \<and>
      (extractToken_p000 req = Some token \<and> token \<noteq> [] \<longrightarrow>
         jwtMiddleware_p000 verify secretKey (Some opts) req =
           (case verify token secretKey (VerifyOptions (Some algs)) of
              Inl err \<Rightarrow>
                (req,
                 [Status 401,
                  Json (ResBody (readProp
                    (case readProp (message opts) of
                       None \<Rightarrow> Given ''Invalid token''
                     | Some m \<Rightarrow>
                         if error m = Missing then Given ''Invalid token'' else error m)))])
            | Inr decoded \<Rightarrow>
                (req \<lparr> user := Some decoded \<rparr>, [Next (req \<lparr> user := Some decoded \<rparr>) []])))"
      using r generateToken_p000_defined [OF d, of sign payload secretKey]
        jwtMiddleware_p000_with_token [of req token verify secretKey opts]
      by (simp add: mergedOptions_p000_fields generateOptions_fields l)
  qed
  have p001: "algorithms opts' = Missing \<and> algs' = [''HS256''] \<or> algorithms opts' = Given algs' \<longrightarrow>
      readProp (algorithms (mergedOptions_p001 opts')) = Some algs' \<and>
      readProp (algorithms (generateOptions_p001 opts')) = Some algs' \<and>
      generateToken_p001 sign payload secretKey (Some opts') =
        propagate (sign payload secretKey
          (SignOptions
             (readProp (if expiresIn opts' = Missing then Given ''1h'' else expiresIn opts'))
             (index algs' 0))) \<and>
      (authorization req = Some auth \<and> auth \<noteq> [] \<and>
       replace auth ''Bearer '' [] = token' \<and> token' \<noteq> [] \<longrightarrow>
         jwtMiddleware_p001 verify secretKey (Some opts') req =
           (case verify token' secretKey (VerifyOptions (Some algs')) of
              Inl err \<Rightarrow>
                (req,
                 [Status 401,
                  Send (ResBody (readProp
                    (case readProp (message opts') of
                       None \<Rightarrow> Given ''Invalid token''
                     | Some m \<Rightarrow>
                         if errorMessage m = Missing then Given ''Invalid token''
                         else errorMessage m)))])
            | Inr decoded \<Rightarrow> (req, [Next req []])))"
  proof
    assume that: "algorithms opts' = Missing \<and> algs' = [''HS256''] \<or> algorithms opts' = Given algs'"
    from that have r: "readProp (if algorithms opts' = Missing then Given [''HS256'']
                                 else algorithms opts') = Some algs'"
      by auto
    from that have d: "algorithms opts' \<noteq> Undefined"
      and l: "(case algorithms opts' of Given xs \<Rightarrow> xs | _ \<Rightarrow> [''HS256'']) = algs'"
      by auto
    show "readProp (algorithms (mergedOptions_p001 opts')) = Some algs' \<and>
      readProp (algorithms (generateOptions_p001 opts')) = Some algs' \<and>
      generateToken_p001 sign payload secretKey (Some opts') =
        propagate (sign payload secretKey
          (SignOptions
             (readProp (if expiresIn opts' = Missing then Given ''1h'' else expiresIn opts'))
             (index algs' 0))) \<and>
      (authorization req = Some auth \<and> auth \<noteq> [] \<and>
       replace auth ''Bearer '' [] = token' \<and> token' \<noteq> [] \<longrightarrow>
         jwtMiddleware_p001 verify secretKey (Some opts') req =
           (case verify token' secretKey (VerifyOptions (Some algs')) of
              Inl err \<Rightarrow>
                (req,
                 [Status 401,
                  Send (ResBody (readProp
                    (case readProp (message opts') of
                       None \<Rightarrow> Given ''Invalid token''
                     | Some m \<Rightarrow>
                         if errorMessage m = Missing then Given ''Invalid token''
                         else errorMessage m)))])
            | Inr decoded \<Rightarrow> (req, [Next req []])))"
      using r generateToken_p001_defined [OF d, of sign payload secretKey]
        jwtMiddleware_p001_with_token [of req auth token' verify secretKey opts']
      by (simp add: mergedOptions_p001_fields generateOptions_fields l)
  qed
  have o000: "extractToken_p000 req = Some token \<and> token \<noteq> [] \<longrightarrow>
      jwtMiddleware_p000 verify secretKey None req =
        (case verify token secretKey (VerifyOptions (Some [''HS256''])) of
           Inl err \<Rightarrow> (req, [Status 401, Json (ResBody (Some ''Invalid token''))])
         | Inr decoded \<Rightarrow>
             (req \<lparr> user := Some decoded \<rparr>, [Next (req \<lparr> user := Some decoded \<rparr>) []]))"
    using jwtMiddleware_p000_with_token_omitted [of req token verify secretKey] by simp
  have o001: "authorization req = Some auth \<and> auth \<noteq> [] \<and>
    replace auth ''Bearer '' [] = token' \<and> token' \<noteq> [] \<longrightarrow>
      jwtMiddleware_p001 verify secretKey None req =
        (case verify token' secretKey (VerifyOptions (Some [''HS256''])) of
           Inl err \<Rightarrow> (req, [Status 401, Send (ResBody (Some ''Invalid token''))])
         | Inr decoded \<Rightarrow> (req, [Next req []]))"
    using jwtMiddleware_p001_with_token_omitted [of req auth token' verify secretKey] by simp
  show ?thesis
    by (intro conjI p000 p001 o000 o001 generateToken_omitted) simp_all
qed

theorem allowed_algorithms_in_use_witness:
  "algorithms \<lparr> message = Missing :: Message_p000 property, expiresIn = Missing,
                algorithms = Missing \<rparr> = Missing \<and>
   algorithms \<lparr> message = Missing :: Message_p001 property, expiresIn = Missing,
                algorithms = Given [''RS256'', ''HS256''] \<rparr> = Given [''RS256'', ''HS256''] \<and>
   extractToken_p000 \<lparr> authorization = Some ''Bearer s3cret.HS256.1h'', user = None \<rparr> =
     Some ''s3cret.HS256.1h'' \<and>
   replace ''Bearer s3cret.HS256.1h'' ''Bearer '' [] = ''s3cret.HS256.1h'' \<and>
   generateToken_p000 toySign examplePayload ''s3cret''
     (Some \<lparr> message = Missing, expiresIn = Missing, algorithms = Missing \<rparr>) =
     Inr ''s3cret.HS256.1h'' \<and>
   jwtMiddleware_p000 toyVerify ''s3cret''
     (Some \<lparr> message = Missing, expiresIn = Missing, algorithms = Missing \<rparr>)
     \<lparr> authorization = Some ''Bearer s3cret.HS256.1h'', user = None \<rparr> =
     (\<lparr> authorization = Some ''Bearer s3cret.HS256.1h'', user = Some examplePayload \<rparr>,
      [Next \<lparr> authorization = Some ''Bearer s3cret.HS256.1h'', user = Some examplePayload \<rparr> []]) \<and>
   generateToken_p001 toySign examplePayload ''s3cret''
     (Some \<lparr> message = Missing, expiresIn = Missing,
             algorithms = Given [''RS256'', ''HS256''] \<rparr>) =
     Inr ''s3cret.RS256.1h'' \<and>
   jwtMiddleware_p001 toyVerify ''s3cret''
     (Some \<lparr> message = Missing, expiresIn = Missing,
             algorithms = Given [''RS256'', ''HS256''] \<rparr>)
     \<lparr> authorization = Some ''Bearer s3cret.HS256.1h'', user = None \<rparr> =
     (\<lparr> authorization = Some ''Bearer s3cret.HS256.1h'', user = None \<rparr>,
      [Next \<lparr> authorization = Some ''Bearer s3cret.HS256.1h'', user = None \<rparr> []])"
proof -
  have h1: "extractToken_p000 \<lparr> authorization = Some ''Bearer s3cret.HS256.1h'', user = None \<rparr> =
     Some ''s3cret.HS256.1h''"
    by (simp add: extractToken_p000_def startsWith_def substring_def)
  have h2: "replace ''Bearer s3cret.HS256.1h'' ''Bearer '' [] = ''s3cret.HS256.1h''"
    by (simp add: startsWith_def)
  from allowed_algorithms_in_use
    [where opts = "\<lparr> message = Missing, expiresIn = Missing, algorithms = Missing \<rparr>"
       and algs = "[''HS256'']"
       and opts' = "\<lparr> message = Missing, expiresIn = Missing,
                      algorithms = Given [''RS256'', ''HS256''] \<rparr>"
       and algs' = "[''RS256'', ''HS256'']"
       and req = "\<lparr> authorization = Some ''Bearer s3cret.HS256.1h'', user = None \<rparr>"
       and token = "''s3cret.HS256.1h''" and token' = "''s3cret.HS256.1h''"
       and auth = "''Bearer s3cret.HS256.1h''"
       and verify = toyVerify and secretKey = "''s3cret''"
       and sign = toySign and payload = examplePayload]
    h1 h2
  show ?thesis
    by (simp add: toyVerify_def toySign_def startsWith_def)
qed

section \<open>A generated token at the gate\<close>


lemma propagate_Inr: "propagate r = Inr token \<Longrightarrow> r = Inr token"
  by (cases r) simp_all




text \<open>
  The same in the second file, whose gate calls \<^verbatim>\<open>next\<close> and leaves the request as it is.
\<close>

lemma second_file_accepts_generated_token:
  assumes "signedTokensVerify sign verify claims secretKey"
    and "authorization req = Some (''Bearer '' @ token)"
    and "generateToken_p001 sign claims secretKey (Some issuing) = Inr token"
    and "algorithms issuing = Missing \<and> a = ''HS256'' \<or>
         (\<exists>rest. algorithms issuing = Given (a # rest))"
    and "algorithms accepting = Missing \<and> algs = [''HS256''] \<or> algorithms accepting = Given algs"
    and "a \<in> set algs"
  shows "jwtMiddleware_p001 verify secretKey (Some accepting) req = (req, [Next req []])"
proof -
  from assms(4) have d: "algorithms issuing \<noteq> Undefined"
    and i: "index (case algorithms issuing of Given xs \<Rightarrow> xs | _ \<Rightarrow> [''HS256'']) 0 = Some a"
    by auto
  from assms(3) generateToken_p001_defined [OF d, of sign claims secretKey] i
  have "propagate (sign claims secretKey
          (SignOptions
             (readProp (if expiresIn issuing = Missing then Given ''1h'' else expiresIn issuing))
             (Some a))) = Inr token"
    by simp
  then have s: "sign claims secretKey
          (SignOptions
             (readProp (if expiresIn issuing = Missing then Given ''1h'' else expiresIn issuing))
             (Some a)) = Inr token"
    by (rule propagate_Inr)
  from assms(1) s assms(6) have "token \<noteq> [] \<and>
      (\<exists>decoded. verify token secretKey (VerifyOptions (Some algs)) = Inr decoded \<and>
                 map_le claims decoded)"
    unfolding signedTokensVerify_def by fastforce
  then obtain decoded where t: "token \<noteq> []"
    and v: "verify token secretKey (VerifyOptions (Some algs)) = Inr decoded"
    by blast
  from assms(5) have r: "readProp (if algorithms accepting = Missing then Given [''HS256'']
                            else algorithms accepting) = Some algs"
    by auto
  have p: "replace (''Bearer '' @ token) ''Bearer '' [] = token"
    by (simp add: startsWith_def)
  from jwtMiddleware_p001_with_token [OF assms(2) _ p t, of verify secretKey accepting] r v
  show ?thesis by simp
qed

text \<open>
  With the stand-ins, a token signed with an algorithm that the gate does not allow is
  answered with the configured error text.
\<close>

lemma algorithm_not_allowed_example:
  "generateToken_p000 toySign examplePayload ''s3cret'' None = Inr ''s3cret.HS256.1h'' \<and>
   jwtMiddleware_p000 toyVerify ''s3cret''
     (Some \<lparr> message = Missing, expiresIn = Missing, algorithms = Given [''RS256''] \<rparr>)
     \<lparr> authorization = Some ''Bearer s3cret.HS256.1h'', user = None \<rparr> =
   (\<lparr> authorization = Some ''Bearer s3cret.HS256.1h'', user = None \<rparr>,
    [Status 401, Json (ResBody (Some ''Invalid token''))])"
  by (simp add: generateToken_omitted toySign_def jwtMiddleware_p000_def extractToken_p000_def
      merged_message_p000 merged_algorithms_p000 toyVerify_def startsWith_def substring_def
      Let_def)

section \<open>The success message\<close>

text \<open>
  What a handler reads of the options: the allowed algorithms and the error text of the
  merged message. \<^verbatim>\<open>generateToken\<close> reads \<open>expiresIn\<close> and \<open>algorithms\<close>.
\<close>

lemma jwtMiddleware_p000_reads:
  assumes "algorithms o1 = algorithms o2"
    and "error (spreadMessage_p000 d (readProp (message o1))) =
         error (spreadMessage_p000 d (readProp (message o2)))"
    and "d = \<lparr> success = Given ''Token is valid'', error = Given ''Invalid token'' \<rparr>"
  shows "jwtMiddleware_p000 verify secretKey (Some o1) req =
         jwtMiddleware_p000 verify secretKey (Some o2) req"
  using assms
  by (simp add: jwtMiddleware_p000_def merged_message_p000 merged_algorithms_p000 Let_def
      cong: option.case_cong sum.case_cong if_cong)

lemma jwtMiddleware_p001_reads:
  assumes "algorithms o1 = algorithms o2"
    and "errorMessage (spreadMessage_p001 d (readProp (message o1))) =
         errorMessage (spreadMessage_p001 d (readProp (message o2)))"
    and "d = \<lparr> successMessage = Given ''Token is valid'',
               errorMessage = Given ''Invalid token'' \<rparr>"
  shows "jwtMiddleware_p001 verify secretKey (Some o1) req =
         jwtMiddleware_p001 verify secretKey (Some o2) req"
  using assms
  by (simp add: jwtMiddleware_p001_def merged_message_p001 merged_algorithms_p001 Let_def
      cong: option.case_cong sum.case_cong if_cong)

lemma generateToken_reads:
  "algorithms o1 = algorithms o2 \<Longrightarrow> expiresIn o1 = expiresIn o2 \<Longrightarrow>
   generateToken_p000 sign payload secretKey (Some o1) =
   generateToken_p000 sign payload secretKey (Some o2)"
  "algorithms o1' = algorithms o2' \<Longrightarrow> expiresIn o1' = expiresIn o2' \<Longrightarrow>
   generateToken_p001 sign payload secretKey (Some o1') =
   generateToken_p001 sign payload secretKey (Some o2')"
  by (simp_all add: generateToken_p000_given generateToken_p001_given cong: option.case_cong)

text \<open>
  C10. Two options objects that differ in the success text of their message object only
  (present with one value, present with another, or not present), and likewise an options
  object with no message and one whose message holds a success text and nothing else,
  give the same handler result on every request and for every verification primitive, and
  the same \<^verbatim>\<open>generateToken\<close> result for every payload, key and signing primitive, in both
  files: the success text reaches no output.
\<close>

theorem success_message_is_dead:
  "jwtMiddleware_p000 verify secretKey
       (Some (opts \<lparr> message := Given (m \<lparr> success := s1 \<rparr>) \<rparr>)) req =
     jwtMiddleware_p000 verify secretKey
       (Some (opts \<lparr> message := Given (m \<lparr> success := s2 \<rparr>) \<rparr>)) req \<and>
   generateToken_p000 sign payload secretKey
       (Some (opts \<lparr> message := Given (m \<lparr> success := s1 \<rparr>) \<rparr>)) =
     generateToken_p000 sign payload secretKey
       (Some (opts \<lparr> message := Given (m \<lparr> success := s2 \<rparr>) \<rparr>)) \<and>
   jwtMiddleware_p000 verify secretKey
       (Some (opts \<lparr> message := Given \<lparr> success = s1, error = Missing \<rparr> \<rparr>)) req =
     jwtMiddleware_p000 verify secretKey (Some (opts \<lparr> message := Missing \<rparr>)) req \<and>
   generateToken_p000 sign payload secretKey
       (Some (opts \<lparr> message := Given \<lparr> success = s1, error = Missing \<rparr> \<rparr>)) =
     generateToken_p000 sign payload secretKey (Some (opts \<lparr> message := Missing \<rparr>)) \<and>
   jwtMiddleware_p001 verify secretKey
       (Some (opts' \<lparr> message := Given (m' \<lparr> successMessage := s1 \<rparr>) \<rparr>)) req =
     jwtMiddleware_p001 verify secretKey
       (Some (opts' \<lparr> message := Given (m' \<lparr> successMessage := s2 \<rparr>) \<rparr>)) req \<and>
   generateToken_p001 sign payload secretKey
       (Some (opts' \<lparr> message := Given (m' \<lparr> successMessage := s1 \<rparr>) \<rparr>)) =
     generateToken_p001 sign payload secretKey
       (Some (opts' \<lparr> message := Given (m' \<lparr> successMessage := s2 \<rparr>) \<rparr>)) \<and>
   jwtMiddleware_p001 verify secretKey
       (Some (opts' \<lparr> message := Given \<lparr> successMessage = s1, errorMessage = Missing \<rparr> \<rparr>)) req =
     jwtMiddleware_p001 verify secretKey (Some (opts' \<lparr> message := Missing \<rparr>)) req \<and>
   generateToken_p001 sign payload secretKey
       (Some (opts' \<lparr> message := Given \<lparr> successMessage = s1, errorMessage = Missing \<rparr> \<rparr>)) =
     generateToken_p001 sign payload secretKey (Some (opts' \<lparr> message := Missing \<rparr>))"
proof (intro conjI)
  show "jwtMiddleware_p000 verify secretKey
       (Some (opts \<lparr> message := Given (m \<lparr> success := s1 \<rparr>) \<rparr>)) req =
     jwtMiddleware_p000 verify secretKey
       (Some (opts \<lparr> message := Given (m \<lparr> success := s2 \<rparr>) \<rparr>)) req"
    by (rule jwtMiddleware_p000_reads) simp_all
  show "jwtMiddleware_p000 verify secretKey
       (Some (opts \<lparr> message := Given \<lparr> success = s1, error = Missing \<rparr> \<rparr>)) req =
     jwtMiddleware_p000 verify secretKey (Some (opts \<lparr> message := Missing \<rparr>)) req"
    by (rule jwtMiddleware_p000_reads) simp_all
  show "jwtMiddleware_p001 verify secretKey
       (Some (opts' \<lparr> message := Given (m' \<lparr> successMessage := s1 \<rparr>) \<rparr>)) req =
     jwtMiddleware_p001 verify secretKey
       (Some (opts' \<lparr> message := Given (m' \<lparr> successMessage := s2 \<rparr>) \<rparr>)) req"
    by (rule jwtMiddleware_p001_reads) simp_all
  show "jwtMiddleware_p001 verify secretKey
       (Some (opts' \<lparr> message := Given \<lparr> successMessage = s1, errorMessage = Missing \<rparr> \<rparr>)) req =
     jwtMiddleware_p001 verify secretKey (Some (opts' \<lparr> message := Missing \<rparr>)) req"
    by (rule jwtMiddleware_p001_reads) simp_all
  show "generateToken_p000 sign payload secretKey
       (Some (opts \<lparr> message := Given (m \<lparr> success := s1 \<rparr>) \<rparr>)) =
     generateToken_p000 sign payload secretKey
       (Some (opts \<lparr> message := Given (m \<lparr> success := s2 \<rparr>) \<rparr>))"
    by (rule generateToken_reads) simp_all
  show "generateToken_p000 sign payload secretKey
       (Some (opts \<lparr> message := Given \<lparr> success = s1, error = Missing \<rparr> \<rparr>)) =
     generateToken_p000 sign payload secretKey (Some (opts \<lparr> message := Missing \<rparr>))"
    by (rule generateToken_reads) simp_all
  show "generateToken_p001 sign payload secretKey
       (Some (opts' \<lparr> message := Given (m' \<lparr> successMessage := s1 \<rparr>) \<rparr>)) =
     generateToken_p001 sign payload secretKey
       (Some (opts' \<lparr> message := Given (m' \<lparr> successMessage := s2 \<rparr>) \<rparr>))"
    by (rule generateToken_reads) simp_all
  show "generateToken_p001 sign payload secretKey
       (Some (opts' \<lparr> message := Given \<lparr> successMessage = s1, errorMessage = Missing \<rparr> \<rparr>)) =
     generateToken_p001 sign payload secretKey (Some (opts' \<lparr> message := Missing \<rparr>))"
    by (rule generateToken_reads) simp_all
qed

theorem success_message_is_dead_witness:
  "jwtMiddleware_p000 verifyReject ''s3cret''
       (Some \<lparr> message = Given \<lparr> success = Given ''Welcome'', error = Given ''Denied'' \<rparr>,
               expiresIn = Missing, algorithms = Missing \<rparr>)
       \<lparr> authorization = Some ''Bearer abc'', user = None \<rparr> =
     jwtMiddleware_p000 verifyReject ''s3cret''
       (Some \<lparr> message = Given \<lparr> success = Missing, error = Given ''Denied'' \<rparr>,
               expiresIn = Missing, algorithms = Missing \<rparr>)
       \<lparr> authorization = Some ''Bearer abc'', user = None \<rparr> \<and>
   jwtMiddleware_p000 verifyReject ''s3cret''
       (Some \<lparr> message = Given \<lparr> success = Missing, error = Given ''Denied'' \<rparr>,
               expiresIn = Missing, algorithms = Missing \<rparr>)
       \<lparr> authorization = Some ''Bearer abc'', user = None \<rparr> =
     (\<lparr> authorization = Some ''Bearer abc'', user = None \<rparr>,
      [Status 401, Json (ResBody (Some ''Denied''))])"
  using success_message_is_dead
    [where verify = verifyReject and secretKey = "''s3cret''"
       and opts = "\<lparr> message = Missing, expiresIn = Missing, algorithms = Missing \<rparr>"
       and m = "\<lparr> success = Missing, error = Given ''Denied'' \<rparr>"
       and ?s1.0 = "Given ''Welcome''" and ?s2.0 = Missing
       and req = "\<lparr> authorization = Some ''Bearer abc'', user = None \<rparr>"]
  by (simp add: jwtMiddleware_p000_def extractToken_p000_def merged_message_p000
      verifyReject_def startsWith_def substring_def Let_def)

end
